theory Spec2Isabelle
  imports Main
begin

section \<open>JavaScript values used by iothub-explorer\<close>

text \<open>
  Option values and fields of service records hold a string or are undefined/null:
  \<open>None\<close> is undefined (or null), \<open>Some s\<close> the string \<open>s\<close>. The tests of the source
  (\<open>if (x)\<close>, \<open>!x\<close>, \<open>x || d\<close>) are JavaScript truthiness: undefined, null and the empty
  string are falsy, every other string is truthy.
\<close>

definition truthy :: "string option \<Rightarrow> bool" where
  "truthy v = (case v of None \<Rightarrow> False | Some s \<Rightarrow> s \<noteq> [])"

text \<open>String concatenation \<open>'' + v\<close> of a value that may be undefined.\<close>

definition js_concat_value :: "string option \<Rightarrow> string" where
  "js_concat_value v = (case v of None \<Rightarrow> ''undefined'' | Some s \<Rightarrow> s)"

text \<open>
  An Error object: the name of its constructor, its message and its \<open>code\<close> property
  (set by the fs module, e.g. ENOENT).
\<close>

datatype js_error = JsError (ename: string) (emessage: string) (ecode: "string option")

text \<open>\<open>Error.prototype.toString\<close>.\<close>

definition error_toString :: "js_error \<Rightarrow> string" where
  "error_toString e =
     (if ename e = [] then emessage e
      else if emessage e = [] then ename e
      else ename e @ '': '' @ emessage e)"

text \<open>What a callback receives as \<open>err\<close> and hands on: an Error object or a string.\<close>

datatype err_arg = ErrObject js_error | ErrString string

fun toString :: "err_arg \<Rightarrow> string" where
  "toString (ErrObject e) = error_toString e"
| "toString (ErrString s) = s"

section \<open>The process: console output, exit and uncaught exceptions\<close>

text \<open>
  A line of \<open>console.log\<close>: \<open>Colored t\<close> is \<open>colorsTmpl(t)\<close> (the template is kept, the
  colouring is the library's), \<open>Plain s\<close> is \<open>s\<close> printed as it is.
\<close>

datatype line = Colored string | Plain string

text \<open>
  \<open>process.exit(n)\<close> and an exception that nothing catches both end the run at once:
  the code after them is not executed.
\<close>

datatype halt = Exit nat | Throw js_error

type_synonym 'a proc = "line list \<times> (halt + 'a)"

definition return_proc :: "'a \<Rightarrow> 'a proc" where
  "return_proc x = ([], Inr x)"

definition and_then :: "'a proc \<Rightarrow> ('a \<Rightarrow> 'b proc) \<Rightarrow> 'b proc" where
  "and_then m f =
     (case m of
        (out, Inl h) \<Rightarrow> (out, Inl h)
      | (out, Inr x) \<Rightarrow> (case f x of (out', r) \<Rightarrow> (out @ out', r)))"

section \<open>common.js\<close>

record symmetric_key =
  primaryKey :: "string option"
  secondaryKey :: "string option"

record x509_thumbprint =
  primaryThumbprint :: "string option"
  secondaryThumbprint :: "string option"

record authentication_info =
  SymmetricKey :: symmetric_key
  x509Thumbprint :: x509_thumbprint

record device_info =
  deviceId :: string
  authentication :: authentication_info

text \<open>\<open>createDeviceConnectionString\<close>: \<open>None\<close> is the \<open>null\<close> result.\<close>

definition createDeviceConnectionString :: "device_info \<Rightarrow> string \<Rightarrow> string option" where
  "createDeviceConnectionString deviceInfo hubHostName =
     (let cs = ''HostName='' @ hubHostName @ '';DeviceId='' @ deviceId deviceInfo in
      if truthy (primaryKey (SymmetricKey (authentication deviceInfo))) then
        Some (cs @ '';SharedAccessKey='' @
              js_concat_value (primaryKey (SymmetricKey (authentication deviceInfo))))
      else if truthy (secondaryKey (SymmetricKey (authentication deviceInfo))) then
        Some (cs @ '';SharedAccessKey='' @
              js_concat_value (secondaryKey (SymmetricKey (authentication deviceInfo))))
      else if truthy (primaryThumbprint (x509Thumbprint (authentication deviceInfo)))
            \<or> truthy (secondaryThumbprint (x509Thumbprint (authentication deviceInfo))) then
        Some (cs @ ''x509=true'')
      else None)"

text \<open>\<open>printError\<close>: prints with the prefix (default \<open>Error:\<close>) and exits with code 1.\<close>

definition printError :: "string \<Rightarrow> string option \<Rightarrow> 'a proc" where
  "printError message prefix =
     (let prefix' = (if \<not> truthy prefix then ''Error:'' else js_concat_value prefix) in
      ([Colored (CHR 0x0A # ''{bold}{red}'' @ prefix' @ ''{/red}{/bold} '' @ message)],
       Inl (Exit 1)))"

definition inputError :: "string \<Rightarrow> 'a proc" where
  "inputError message = printError message (Some ''Input Error:'')"

text \<open>\<open>message.lastIndexOf('Error:', 0) === 0\<close> holds when the message starts with \<open>Error:\<close>.\<close>

definition serviceError :: "err_arg \<Rightarrow> 'a proc" where
  "serviceError err =
     (let message = toString err;
          message' = (if take 6 message = ''Error:'' then drop 6 message else message)
      in printError message' None)"

definition printSuccess :: "string \<Rightarrow> unit proc" where
  "printSuccess message = ([Colored (''{green}'' @ message @ ''{/green}'')], Inr ())"

subsection \<open>Message envelopes\<close>

text \<open>
  A value of \<open>JSON.parse\<close>. Numbers are kept as integers: no function here computes
  with them.
\<close>

datatype json =
    JNull
  | JBool bool
  | JNumber int
  | JString string
  | JArray "json list"
  | JObject "(string \<times> json) list"

datatype message_body = TextBody string | JsonBody json

text \<open>\<open>new Message(body)\<close> with the two properties the tool sets on it.\<close>

record message =
  data :: message_body
  messageId :: string
  ack :: "string option"

text \<open>
  What \<open>createMessageFromArgument\<close> returns: the parsed structure itself, or a new
  \<open>Message\<close>.
\<close>

datatype message_value = Parsed json | Envelope message

definition TypeError_messageId :: js_error where
  "TypeError_messageId =
     JsError ''TypeError'' ''Cannot read property 'messageId' of undefined'' None"

text \<open>
  The property read \<open>message.messageId\<close>, where \<open>message\<close> is a local variable that may
  still be undefined: reading a property of undefined (or of null) throws a TypeError.
\<close>

fun read_messageId :: "message_value option \<Rightarrow> js_error + json option" where
  "read_messageId None = Inl TypeError_messageId"
| "read_messageId (Some (Parsed JNull)) = Inl TypeError_messageId"
| "read_messageId (Some (Parsed (JObject kvs))) = Inr (map_of kvs ''messageId'')"
| "read_messageId (Some (Parsed v)) = Inr None"
| "read_messageId (Some (Envelope m)) = Inr (Some (JString (messageId m)))"

fun json_truthy :: "json option \<Rightarrow> bool" where
  "json_truthy None = False"
| "json_truthy (Some JNull) = False"
| "json_truthy (Some (JBool b)) = b"
| "json_truthy (Some (JNumber n)) = (n \<noteq> 0)"
| "json_truthy (Some (JString s)) = (s \<noteq> [])"
| "json_truthy (Some v) = True"

text \<open>The inner function \<open>createMessage\<close>; \<open>uuid\<close> is the value of \<open>uuid.v4()\<close>.\<close>

definition createMessage :: "string \<Rightarrow> string option \<Rightarrow> message_body \<Rightarrow> message" where
  "createMessage uuid ack' body =
     (let msg = \<lparr>data = body, messageId = uuid, ack = None\<rparr> in
      if truthy ack' then msg\<lparr>ack := ack'\<rparr> else msg)"

text \<open>
  \<open>createMessageFromArgument\<close>. \<open>JSON_parse\<close> is the built-in \<open>JSON.parse\<close>, which throws a
  SyntaxError on text that is not JSON; \<open>uuid\<close> is what \<open>uuid.v4()\<close> returns in this call.
  The variable \<open>message\<close> is declared and not assigned before the \<open>try\<close> block reads
  \<open>message.messageId\<close>. \<open>Inl e\<close> is the exception \<open>e\<close> leaving the function.
\<close>

definition createMessageFromArgument ::
  "(string \<Rightarrow> js_error + json) \<Rightarrow> string \<Rightarrow> string \<Rightarrow> string option \<Rightarrow> js_error + message_value"
where
  "createMessageFromArgument JSON_parse uuid messageArg ack' =
     (let message = (None :: message_value option);
          tried =
            (case JSON_parse messageArg of
               Inl e \<Rightarrow> Inl e
             | Inr tmpMessage \<Rightarrow>
                 (case read_messageId message of
                    Inl e \<Rightarrow> Inl e
                  | Inr mid \<Rightarrow>
                      if json_truthy mid then Inr (Parsed tmpMessage)
                      else Inr (Envelope (createMessage uuid ack' (JsonBody tmpMessage)))))
      in case tried of
           Inr m \<Rightarrow> Inr m
         | Inl e \<Rightarrow>
             if ename e = ''SyntaxError''
             then Inr (Envelope (createMessage uuid ack' (TextBody messageArg)))
             else Inl e)"

subsection \<open>The cached session file\<close>

text \<open>
  The platform and the environment variables of the process, the clock (\<open>Date.now()\<close>, in
  milliseconds) and the files: a path holds a file, holds nothing, or fails with an
  errno code other than ENOENT (EACCES, EISDIR, EPERM, ...).
\<close>

datatype fs_entry = Missing | File string | Failing string

record environment =
  platform :: string
  HOME :: "string option"
  LOCALAPPDATA :: "string option"
  Date_now :: nat
  files :: "string \<Rightarrow> fs_entry"

text \<open>
  The error an fs call throws: an \<open>Error\<close> whose \<open>code\<close> is the errno code. The tool reads
  only \<open>code\<close>; the message here is the code and the path, and stands for the longer
  message of Node, which also describes the failure and names the system call.
\<close>

definition fs_error :: "string \<Rightarrow> string \<Rightarrow> js_error" where
  "fs_error code path = JsError ''Error'' (code @ '': '' @ path) (Some code)"

definition readFileSync :: "(string \<Rightarrow> fs_entry) \<Rightarrow> string \<Rightarrow> js_error + string" where
  "readFileSync fs path =
     (case fs path of
        File content \<Rightarrow> Inr content
      | Missing \<Rightarrow> Inl (fs_error ''ENOENT'' path)
      | Failing code \<Rightarrow> Inl (fs_error code path))"

definition unlinkSync ::
  "(string \<Rightarrow> fs_entry) \<Rightarrow> string \<Rightarrow> js_error + (string \<Rightarrow> fs_entry)" where
  "unlinkSync fs path =
     (case fs path of
        File content \<Rightarrow> Inr (fs(path := Missing))
      | Missing \<Rightarrow> Inl (fs_error ''ENOENT'' path)
      | Failing code \<Rightarrow> Inl (fs_error code path))"

text \<open>The pair \<open>{dir, file}\<close>; \<open>file\<close> is a keyword of Isabelle, so the field is \<open>filename\<close>.\<close>

record config_location =
  dir :: string
  filename :: string

definition configLoc :: "environment \<Rightarrow> config_location proc" where
  "configLoc env =
     (if platform env = ''darwin'' then
        return_proc \<lparr>dir = js_concat_value (HOME env) @ ''/Library/Application Support/iothub-explorer'',
                     filename = ''config''\<rparr>
      else if platform env = ''linux'' then
        return_proc \<lparr>dir = js_concat_value (HOME env), filename = ''.iothub-explorer''\<rparr>
      else if platform env = ''win32'' then
        return_proc \<lparr>dir = js_concat_value (LOCALAPPDATA env) @ ''/iothub-explorer'',
                     filename = ''config''\<rparr>
      else inputError '''login' not supported on this platform'')"

definition session_path :: "config_location \<Rightarrow> string" where
  "session_path loc = dir loc @ ''/'' @ filename loc"

text \<open>\<open>loadSasFromUserFile\<close>: \<open>None\<close> is the undefined \<open>sas\<close> of a missing file.\<close>

definition loadSasFromUserFile :: "environment \<Rightarrow> string option proc" where
  "loadSasFromUserFile env =
     and_then (configLoc env) (\<lambda>loc.
       case readFileSync (files env) (session_path loc) of
         Inr sas \<Rightarrow> return_proc (Some sas)
       | Inl err \<Rightarrow>
           if ecode err \<noteq> Some ''ENOENT'' then ([], Inl (Throw err))
           else return_proc None)"

text \<open>
  The functions of the azure-iothub and azure-iot-device packages that the tool calls.
  They are not part of this repository and are parameters of the model:
  \<open>ConnectionString.parse\<close> (throws an ArgumentError on a malformed string),
  \<open>SharedAccessSignature.create(...).toString()\<close>, \<open>SharedAccessSignature.parse(sas).sr\<close>,
  \<open>DeviceConnectionString.parse(cs).DeviceId\<close>, the built-in \<open>JSON.parse\<close>, and
  \<open>prettyjson.render\<close> of the prettyjson package on a string.
\<close>

record service_connection_string =
  HostName :: string
  SharedAccessKeyName :: string
  SharedAccessKey :: string

record sdk =
  ConnectionString_parse :: "string \<Rightarrow> js_error + service_connection_string"
  SharedAccessSignature_create :: "string \<Rightarrow> string \<Rightarrow> string \<Rightarrow> nat \<Rightarrow> string"
  SharedAccessSignature_parse_sr :: "string \<Rightarrow> js_error + string"
  DeviceConnectionString_parse_DeviceId :: "string \<Rightarrow> js_error + string option"
  JSON_parse :: "string \<Rightarrow> js_error + json"
  prettyjson_render :: "string \<Rightarrow> string"

definition login_message :: string where
  "login_message = ''You must either use the login command or the --login argument for iothub-explorer to authenticate with your IoT Hub instance''"

text \<open>
  \<open>getSas\<close>. \<open>Math.floor(Date.now() / 1000)\<close> is the integer quotient of the millisecond
  clock by 1000. The function returns only a truthy \<open>sas\<close>: \<open>inputError\<close> exits otherwise.
\<close>

definition getSas :: "sdk \<Rightarrow> environment \<Rightarrow> string option \<Rightarrow> string proc" where
  "getSas lib env connectionString =
     and_then
       (if truthy connectionString then
          and_then
            (case ConnectionString_parse lib (js_concat_value connectionString) of
               Inr cn \<Rightarrow> return_proc cn
             | Inl e \<Rightarrow>
                 if ename e = ''ArgumentError''
                 then inputError (''Could not parse connection string: '' @
                                  js_concat_value connectionString)
                 else ([], Inl (Throw e)))
            (\<lambda>cn. let expiry = Date_now env div 1000 + 3600 in
                   return_proc (Some (SharedAccessSignature_create lib (HostName cn)
                                        (SharedAccessKeyName cn) (SharedAccessKey cn) expiry)))
        else loadSasFromUserFile env)
       (\<lambda>sas. if \<not> truthy sas then inputError login_message
               else return_proc (js_concat_value sas))"

definition getHostFromSas :: "sdk \<Rightarrow> string \<Rightarrow> js_error + string" where
  "getHostFromSas lib sas = SharedAccessSignature_parse_sr lib sas"

section \<open>The logout command\<close>

text \<open>
  The body of the script: the result is the file system it leaves, when the script runs to
  its end (exit code 0).
\<close>

definition logout :: "environment \<Rightarrow> (string \<Rightarrow> fs_entry) proc" where
  "logout env =
     and_then (configLoc env) (\<lambda>loc.
       case unlinkSync (files env) (session_path loc) of
         Inr fs' \<Rightarrow> and_then (printSuccess ''Session successfully terminated.'') (\<lambda>_. return_proc fs')
       | Inl err \<Rightarrow>
           if ecode err = Some ''ENOENT'' then printError ''No session information found.'' None
           else ([], Inl (Throw err)))"

section \<open>The simulate-device command\<close>

subsection \<open>Options\<close>

text \<open>
  The value of a numeric option is what \<open>parseInt\<close> made of its argument: an integer or NaN.
  \<open>program.send\<close> is undefined, \<open>true\<close> (\<open>--send\<close> without a message) or the message.
\<close>

datatype js_number = NaN | Num int

datatype send_option = SendAbsent | SendFlag | SendText string

fun send_truthy :: "send_option \<Rightarrow> bool" where
  "send_truthy SendAbsent = False"
| "send_truthy SendFlag = True"
| "send_truthy (SendText s) = (s \<noteq> [])"

text \<open>\<open>program.x\<close> is \<open>program_x\<close>; \<open>program_protocol\<close> and \<open>program_settle\<close> hold the
  command-line argument before \<open>verifyProtocol\<close> and \<open>verifySettle\<close>, and their results after.\<close>

record program =
  program_connectionString :: "string option"
  program_login :: "string option"
  program_protocol :: "string option"
  program_send :: send_option
  program_sendInterval :: "js_number option"
  program_sendCount :: "js_number option"
  program_receive :: bool
  program_receiveCount :: "js_number option"
  program_settle :: "string option"
  program_uploadFile :: "string option"
  program_args :: "string list"

definition settle_values_message :: string where
  "settle_values_message =
     ''--settle can take only take one of the following values: 'complete', 'reject' or 'abandon'' @ [CHR 0x27]"

definition verifySettle :: "string \<Rightarrow> string proc" where
  "verifySettle arg =
     (if arg \<noteq> ''complete'' \<and> arg \<noteq> ''reject'' \<and> arg \<noteq> ''abandon''
      then inputError settle_values_message
      else return_proc arg)"

text \<open>\<open>toLowerCase\<close> on the ASCII letters.\<close>

definition lower_char :: "char \<Rightarrow> char" where
  "lower_char c =
     (case map_of (zip ''ABCDEFGHIJKLMNOPQRSTUVWXYZ'' ''abcdefghijklmnopqrstuvwxyz'') c of
        Some l \<Rightarrow> l
      | None \<Rightarrow> c)"

definition toLowerCase :: "string \<Rightarrow> string" where
  "toLowerCase s = map lower_char s"

definition verifyProtocol :: "string \<Rightarrow> string proc" where
  "verifyProtocol arg =
     (let lowerCaseArg = toLowerCase arg in
      if lowerCaseArg \<noteq> ''amqp'' \<and> lowerCaseArg \<noteq> ''amqp-ws'' \<and> lowerCaseArg \<noteq> ''http''
         \<and> lowerCaseArg \<noteq> ''mqtt''
      then inputError settle_values_message
      else return_proc lowerCaseArg)"

text \<open>
  \<open>program.parse(process.argv)\<close> applies the two functions to the arguments given. Both fail
  with the same message and the same exit, so the order of the two options on the command
  line does not show in the result.
\<close>

definition coerce :: "(string \<Rightarrow> string proc) \<Rightarrow> string option \<Rightarrow> string option proc" where
  "coerce f arg =
     (case arg of
        None \<Rightarrow> return_proc None
      | Some a \<Rightarrow> and_then (f a) (\<lambda>v. return_proc (Some v)))"

definition program_parse :: "program \<Rightarrow> program proc" where
  "program_parse argv =
     and_then (coerce verifyProtocol (program_protocol argv)) (\<lambda>p.
     and_then (coerce verifySettle (program_settle argv)) (\<lambda>s.
       return_proc (argv\<lparr>program_protocol := p, program_settle := s\<rparr>)))"

subsection \<open>The script up to the first request to the service\<close>

datatype transport = AmqpWs | Http | Mqtt | Amqp

text \<open>The variables of the script that \<open>simulateDevice\<close> reads.\<close>

record settings =
  settleMethod :: string
  Protocol :: transport
  sendInterval :: int
  sendCount :: int
  receiveCount :: int
  uploadFilePath :: "string option"

text \<open>
  Where the synchronous part of the script ends when it neither exits nor throws: with
  \<open>registry.get(deviceId, ...)\<close> pending (the token and the device id), or with
  \<open>client.open(...)\<close> pending (the device connection string). What the SDK does from there on
  is the environment's.
\<close>

datatype request = RegistryGet string string | ClientOpen string

definition MAX_SAFE_INTEGER :: int where
  "MAX_SAFE_INTEGER = 9007199254740991"

text \<open>\<open>v || d\<close> for a numeric option: undefined, NaN and 0 are falsy.\<close>

definition or_default :: "js_number option \<Rightarrow> int \<Rightarrow> int" where
  "or_default v d = (case v of Some (Num n) \<Rightarrow> (if n = 0 then d else n) | _ \<Rightarrow> d)"

definition either_message :: string where
  "either_message = ''You must specify either the device connection string (--connection-string), the IoT Hub connection string (--login), or use the 'login' command first.''"

definition device_id_message :: string where
  "device_id_message = ''You must specify either a device connection string (--connection-string) or the IoT Hub connection string and a device id as first argument''"

definition nothing_message :: string where
  "nothing_message = ''Nothing to do: please use --send, --receive or --uploadFile''"

text \<open>\<open>program.args[0]\<close>.\<close>

definition first_arg :: "string list \<Rightarrow> string option" where
  "first_arg as = (case as of [] \<Rightarrow> None | a # _ \<Rightarrow> Some a)"

definition check :: "bool \<Rightarrow> string \<Rightarrow> unit proc" where
  "check failed message = (if failed then inputError message else return_proc ())"

text \<open>The \<open>switch\<close> over \<open>protocolArg\<close>.\<close>

definition select_protocol :: "string \<Rightarrow> string \<Rightarrow> transport proc" where
  "select_protocol protocolArg settleMethod' =
     (if protocolArg = ''amqp-ws'' then return_proc AmqpWs
      else if protocolArg = ''http'' then return_proc Http
      else if protocolArg = ''mqtt'' then
        and_then
          (check (settleMethod' \<noteq> ''complete'')
             (''Cannot '' @ settleMethod' @ '' messages with MQTT: messages are automatically completed.''))
          (\<lambda>_. return_proc Mqtt)
      else return_proc Amqp)"

text \<open>
  \<open>simulateDevice\<close> up to \<open>client.open\<close>. \<open>Protocol\<close> is set by every branch of the switch,
  so the second \<open>throw\<close> of the source has no case here.
\<close>

definition simulateDevice :: "string option \<Rightarrow> request proc" where
  "simulateDevice deviceConnectionString =
     (if \<not> truthy deviceConnectionString
      then ([], Inl (Throw (JsError ''Error'' ''Couldn't figure out device connection string'' None)))
      else return_proc (ClientOpen (js_concat_value deviceConnectionString)))"

definition script :: "sdk \<Rightarrow> environment \<Rightarrow> program \<Rightarrow> (settings \<times> request) proc" where
  "script lib env program =
     and_then (getSas lib env (program_login program)) (\<lambda>sas.
     and_then (check ((\<not> truthy (program_connectionString program) \<and> \<not> truthy (Some sas))
                      \<or> (truthy (program_connectionString program) \<and> truthy (Some sas)))
                 either_message) (\<lambda>_.
     and_then (check (\<not> truthy (program_connectionString program)
                      \<and> \<not> truthy (first_arg (program_args program)))
                 device_id_message) (\<lambda>_.
     and_then (check (\<not> send_truthy (program_send program) \<and> \<not> program_receive program
                      \<and> \<not> truthy (program_uploadFile program))
                 nothing_message) (\<lambda>_.
     let settleMethod' = (if truthy (program_settle program)
                          then js_concat_value (program_settle program) else ''complete'');
         protocolArg = (if truthy (program_protocol program)
                        then js_concat_value (program_protocol program) else ''amqp'')
     in
     and_then (select_protocol protocolArg settleMethod') (\<lambda>Protocol'.
     let vars = \<lparr>settleMethod = settleMethod',
                 Protocol = Protocol',
                 sendInterval = or_default (program_sendInterval program) 1000,
                 sendCount = or_default (program_sendCount program) MAX_SAFE_INTEGER,
                 receiveCount = or_default (program_receiveCount program) MAX_SAFE_INTEGER,
                 uploadFilePath = program_uploadFile program\<rparr>;
         deviceId' = first_arg (program_args program)
     in
     if \<not> truthy deviceId' then
       (let deviceConnectionString = program_connectionString program in
        if \<not> truthy deviceConnectionString then inputError device_id_message
        else
          (case DeviceConnectionString_parse_DeviceId lib (js_concat_value deviceConnectionString) of
             Inl e \<Rightarrow> ([], Inl (Throw e))
           | Inr parsedId \<Rightarrow>
               and_then (simulateDevice deviceConnectionString) (\<lambda>r. return_proc (vars, r))))
     else return_proc (vars, RegistryGet sas (js_concat_value deviceId')))))))"

text \<open>The whole synchronous part: option parsing, then the script.\<close>

definition command :: "sdk \<Rightarrow> environment \<Rightarrow> program \<Rightarrow> (settings \<times> request) proc" where
  "command lib env argv = and_then (program_parse argv) (script lib env)"

text \<open>The callback of \<open>registry.get\<close>: \<open>Inl err\<close> is a call with an error, \<open>Inr deviceInfo\<close> one
  with the device.\<close>

definition registry_get_callback :: "sdk \<Rightarrow> string \<Rightarrow> err_arg + device_info \<Rightarrow> request proc" where
  "registry_get_callback lib sas result =
     and_then
       (case result of
          Inl err \<Rightarrow> serviceError err
        | Inr deviceInfo \<Rightarrow>
            (case getHostFromSas lib sas of
               Inl e \<Rightarrow> ([], Inl (Throw e))
             | Inr host \<Rightarrow> return_proc (createDeviceConnectionString deviceInfo host)))
       simulateDevice"

subsection \<open>The simulated device: callbacks on the event loop\<close>

text \<open>
  From \<open>client.open\<close> on the script runs in callbacks. The state holds the variables of
  \<open>simulateDevice\<close> (\<open>sendRunning\<close>, \<open>receiveRunning\<close>, \<open>uploadRunning\<close>, \<open>sendCounter\<close>,
  \<open>receiveCounter\<close>), which timers and listeners are set (\<open>sendItv\<close>, \<open>taskItv\<close>,
  \<open>onMessage\<close>), the calls to the client whose callback has not run yet, the messages handed
  to \<open>client.sendEvent\<close>, the console, and how the process ended, if it has.
\<close>

record simulation =
  sendRunning :: bool
  receiveRunning :: bool
  uploadRunning :: bool
  sendCounter :: nat
  receiveCounter :: nat
  open_pending :: bool
  sendItv :: bool
  onMessage :: bool
  taskItv :: bool
  sendEvent_calls :: "message_value list"
  sendEvent_pending :: nat
  settle_calls :: "string list"
  settle_pending :: nat
  stat_pending :: bool
  upload_pending :: bool
  close_pending :: nat
  console :: "line list"
  halted :: "halt option"

text \<open>The state when \<open>simulateDevice\<close> has called \<open>client.open\<close>.\<close>

definition simulation_start :: "program \<Rightarrow> simulation" where
  "simulation_start program =
     \<lparr>sendRunning = send_truthy (program_send program),
      receiveRunning = program_receive program,
      uploadRunning = truthy (program_uploadFile program),
      sendCounter = 0,
      receiveCounter = 0,
      open_pending = True,
      sendItv = False,
      onMessage = False,
      taskItv = False,
      sendEvent_calls = [],
      sendEvent_pending = 0,
      settle_calls = [],
      settle_pending = 0,
      stat_pending = False,
      upload_pending = False,
      close_pending = 0,
      console = [],
      halted = None\<rparr>"

text \<open>Running a printing function inside a callback: its lines go to the console, and an
  exit or an exception ends the process.\<close>

definition emit :: "'a proc \<Rightarrow> simulation \<Rightarrow> simulation" where
  "emit p s =
     s\<lparr>console := console s @ fst p,
       halted := (case snd p of Inl h \<Rightarrow> Some h | Inr _ \<Rightarrow> halted s)\<rparr>"

text \<open>A counter in a string concatenation: its decimal digits.\<close>

fun decimal :: "nat \<Rightarrow> string" where
  "decimal n =
     (if n < 10 then [''0123456789'' ! n]
      else decimal (n div 10) @ [''0123456789'' ! (n mod 10)])"

text \<open>
  What the event loop dispatches: the callback of \<open>client.open\<close>, a tick of the send timer
  (with the value \<open>uuid.v4()\<close> returns in it), the callback of a \<open>sendEvent\<close>, a message
  event (with \<open>msg.data.toString()\<close>), the callback of a settle call, of \<open>fs.stat\<close> (an error
  or the file size), of \<open>uploadToBlob\<close>, a tick of the task timer, the callback of
  \<open>client.close\<close>.
\<close>

datatype event =
    OpenDone "js_error option"
  | SendTick string
  | SendEventDone "err_arg option"
  | MessageEvent string
  | SettleDone "js_error option"
  | StatDone "js_error + nat"
  | UploadDone "js_error option"
  | TaskTick
  | CloseDone "err_arg option"

definition on_open :: "settings \<Rightarrow> program \<Rightarrow> js_error option \<Rightarrow> simulation \<Rightarrow> simulation" where
  "on_open vars program err s =
     (case err of
        Some e \<Rightarrow>
          emit (serviceError (ErrString (''Could not connect as device: '' @ emessage e)) :: unit proc)
               (s\<lparr>open_pending := False\<rparr>)
      | None \<Rightarrow>
          s\<lparr>open_pending := False,
            sendItv := send_truthy (program_send program),
            onMessage := program_receive program,
            stat_pending := truthy (uploadFilePath vars),
            taskItv := True\<rparr>)"

text \<open>
  The callback of the send timer. An exception of \<open>createMessageFromArgument\<close> is caught by
  nothing and ends the process. The timer is set only when \<open>program.send\<close> is truthy, so
  the case of an undefined \<open>program.send\<close> (which \<open>JSON.parse\<close> reads as the text
  \<open>undefined\<close>) is never run.
\<close>

definition on_send_tick :: "sdk \<Rightarrow> program \<Rightarrow> string \<Rightarrow> simulation \<Rightarrow> simulation" where
  "on_send_tick lib program uuid s =
     (let message =
            (case program_send program of
               SendFlag \<Rightarrow>
                 createMessageFromArgument (JSON_parse lib) uuid
                   (''Simulated message: #'' @ decimal (sendCounter s)) None
             | SendText text \<Rightarrow> createMessageFromArgument (JSON_parse lib) uuid text None
             | SendAbsent \<Rightarrow> createMessageFromArgument (JSON_parse lib) uuid ''undefined'' None)
      in case message of
           Inl e \<Rightarrow> s\<lparr>halted := Some (Throw e)\<rparr>
         | Inr m \<Rightarrow> s\<lparr>sendEvent_calls := sendEvent_calls s @ [m],
                       sendEvent_pending := sendEvent_pending s + 1\<rparr>)"

definition on_send_done :: "settings \<Rightarrow> err_arg option \<Rightarrow> simulation \<Rightarrow> simulation" where
  "on_send_done vars err s =
     (let s0 = s\<lparr>sendEvent_pending := sendEvent_pending s - 1\<rparr> in
      case err of
        Some e \<Rightarrow> emit (serviceError e :: unit proc) s0
      | None \<Rightarrow>
          (let s1 = emit (printSuccess (''Message #'' @ decimal (sendCounter s0) @ '' sent successfully'')) s0;
               s2 = s1\<lparr>sendCounter := sendCounter s1 + 1\<rparr>
           in if int (sendCounter s2) = sendCount vars
              then s2\<lparr>sendRunning := False, sendItv := False\<rparr>
              else s2))"

text \<open>The listener \<open>onMessage\<close>; the text is \<open>msg.data.toString()\<close>, and what
  \<open>prettyjson.render\<close> makes of it is printed.\<close>

definition on_message :: "sdk \<Rightarrow> settings \<Rightarrow> string \<Rightarrow> simulation \<Rightarrow> simulation" where
  "on_message lib vars text s =
     (let s1 = emit (printSuccess ''-----------------'') s;
          s2 = emit (printSuccess ''Message received:'') s1;
          s3 = s2\<lparr>console := console s2 @ [Plain (prettyjson_render lib text)]\<rparr>;
          s4 = emit (printSuccess ''-----------------'') s3;
          s5 = s4\<lparr>receiveCounter := receiveCounter s4 + 1\<rparr>;
          s6 = (if int (receiveCounter s5) = receiveCount vars
                then s5\<lparr>receiveRunning := False, onMessage := False\<rparr>
                else s5)
      in s6\<lparr>settle_calls := settle_calls s6 @ [settleMethod vars],
             settle_pending := settle_pending s6 + 1\<rparr>)"

definition on_settle_done :: "settings \<Rightarrow> js_error option \<Rightarrow> simulation \<Rightarrow> simulation" where
  "on_settle_done vars err s =
     (let s0 = s\<lparr>settle_pending := settle_pending s - 1\<rparr> in
      case err of
        Some e \<Rightarrow>
          emit (serviceError (ErrString (''Could not '' @ settleMethod vars @ '' message: '' @ emessage e))
                  :: unit proc) s0
      | None \<Rightarrow> emit (printSuccess (settleMethod vars @ '' message: Success'')) s0)"

definition on_stat :: "program \<Rightarrow> js_error + nat \<Rightarrow> simulation \<Rightarrow> simulation" where
  "on_stat program r s =
     (let s0 = s\<lparr>stat_pending := False\<rparr> in
      case r of
        Inl e \<Rightarrow>
          emit (inputError (''Cannot find: '' @ js_concat_value (program_uploadFile program)) :: unit proc) s0
      | Inr fileSize \<Rightarrow> s0\<lparr>upload_pending := True\<rparr>)"

text \<open>
  The callback of \<open>uploadToBlob\<close>. \<open>printError\<close> exits, so the two statements after the
  \<open>if\<close> run only on success.
\<close>

definition on_upload_done :: "js_error option \<Rightarrow> simulation \<Rightarrow> simulation" where
  "on_upload_done err s =
     (let s0 = s\<lparr>upload_pending := False\<rparr>;
          s1 = (case err of
                  Some e \<Rightarrow>
                    emit (printError (''Cannot upload file: '' @ ename e @ '': '' @ emessage e) None
                            :: unit proc) s0
                | None \<Rightarrow> emit (printSuccess ''Upload successful'') s0)
      in if halted s1 \<noteq> None then s1 else s1\<lparr>uploadRunning := False\<rparr>)"

definition on_task_tick :: "simulation \<Rightarrow> simulation" where
  "on_task_tick s =
     (if \<not> sendRunning s \<and> \<not> receiveRunning s \<and> \<not> uploadRunning s
      then (emit (printSuccess ''Device simulation finished.'') s)\<lparr>close_pending := close_pending s + 1\<rparr>
      else s)"

definition on_close_done :: "err_arg option \<Rightarrow> simulation \<Rightarrow> simulation" where
  "on_close_done err s =
     (let s0 = s\<lparr>close_pending := close_pending s - 1\<rparr> in
      case err of
        Some e \<Rightarrow> emit (serviceError e :: unit proc) s0
      | None \<Rightarrow> s0\<lparr>taskItv := False, halted := Some (Exit 0)\<rparr>)"

text \<open>
  One turn of the event loop. Nothing runs after the process has ended, and an event that
  the state does not allow (a tick of a timer that is not set, a callback of a call that
  was not made) does not occur: the state is unchanged.
\<close>

definition enabled :: "event \<Rightarrow> simulation \<Rightarrow> bool" where
  "enabled ev s =
     (halted s = None \<and>
      (case ev of
         OpenDone err \<Rightarrow> open_pending s
       | SendTick uuid \<Rightarrow> sendItv s
       | SendEventDone err \<Rightarrow> 0 < sendEvent_pending s
       | MessageEvent text \<Rightarrow> onMessage s
       | SettleDone err \<Rightarrow> 0 < settle_pending s
       | StatDone r \<Rightarrow> stat_pending s
       | UploadDone err \<Rightarrow> upload_pending s
       | TaskTick \<Rightarrow> taskItv s
       | CloseDone err \<Rightarrow> 0 < close_pending s))"

definition step :: "sdk \<Rightarrow> settings \<Rightarrow> program \<Rightarrow> simulation \<Rightarrow> event \<Rightarrow> simulation" where
  "step lib vars program s ev =
     (if \<not> enabled ev s then s
      else case ev of
         OpenDone err \<Rightarrow> on_open vars program err s
       | SendTick uuid \<Rightarrow> on_send_tick lib program uuid s
       | SendEventDone err \<Rightarrow> on_send_done vars err s
       | MessageEvent text \<Rightarrow> on_message lib vars text s
       | SettleDone err \<Rightarrow> on_settle_done vars err s
       | StatDone r \<Rightarrow> on_stat program r s
       | UploadDone err \<Rightarrow> on_upload_done err s
       | TaskTick \<Rightarrow> on_task_tick s
       | CloseDone err \<Rightarrow> on_close_done err s)"

definition run :: "sdk \<Rightarrow> settings \<Rightarrow> program \<Rightarrow> simulation \<Rightarrow> event list \<Rightarrow> simulation" where
  "run lib vars program s evs = foldl (step lib vars program) s evs"

section \<open>Lines of the console, and the inputs of the examples\<close>

text \<open>The line \<open>printError\<close> prints for a prefix and a message.\<close>

definition error_line :: "string \<Rightarrow> string \<Rightarrow> line" where
  "error_line prefix message =
     Colored (CHR 0x0A # ''{bold}{red}'' @ prefix @ ''{/red}{/bold} '' @ message)"

definition success_line :: "string \<Rightarrow> line" where
  "success_line message = Colored (''{green}'' @ message @ ''{/green}'')"

text \<open>Three device records: no credentials, a primary key, a primary thumbprint.\<close>

definition device_without_credentials :: device_info where
  "device_without_credentials =
     \<lparr>deviceId = ''dev1'',
      authentication =
        \<lparr>SymmetricKey = \<lparr>primaryKey = None, secondaryKey = None\<rparr>,
         x509Thumbprint = \<lparr>primaryThumbprint = None, secondaryThumbprint = None\<rparr>\<rparr>\<rparr>"

definition device_with_key :: device_info where
  "device_with_key =
     \<lparr>deviceId = ''dev1'',
      authentication =
        \<lparr>SymmetricKey = \<lparr>primaryKey = Some ''a2V5'', secondaryKey = None\<rparr>,
         x509Thumbprint = \<lparr>primaryThumbprint = None, secondaryThumbprint = None\<rparr>\<rparr>\<rparr>"

definition device_with_thumbprint :: device_info where
  "device_with_thumbprint =
     \<lparr>deviceId = ''dev1'',
      authentication =
        \<lparr>SymmetricKey = \<lparr>primaryKey = None, secondaryKey = None\<rparr>,
         x509Thumbprint = \<lparr>primaryThumbprint = Some ''0123ABCD'', secondaryThumbprint = None\<rparr>\<rparr>\<rparr>"

text \<open>
  A Linux host whose session file \<open>/home/user/.iothub-explorer\<close> is missing, holds a
  token, or cannot be read or deleted.
\<close>

definition linux_without_session :: environment where
  "linux_without_session =
     \<lparr>platform = ''linux'', HOME = Some ''/home/user'', LOCALAPPDATA = None,
      Date_now = 1478167200123, files = (\<lambda>path. Missing)\<rparr>"

definition cached_token :: string where
  "cached_token = ''SharedAccessSignature sr=hub.example&sig=c2ln&se=1478170800&skn=owner''"

definition linux_with_session :: environment where
  "linux_with_session =
     linux_without_session
       \<lparr>files := (\<lambda>path. if path = ''/home/user/.iothub-explorer'' then File cached_token
                         else Missing)\<rparr>"

definition linux_with_unreadable_session :: environment where
  "linux_with_unreadable_session =
     linux_without_session
       \<lparr>files := (\<lambda>path. if path = ''/home/user/.iothub-explorer'' then Failing ''EACCES''
                         else Missing)\<rparr>"

text \<open>
  The library functions at the inputs of the examples. \<open>JSON.parse\<close> parses the one JSON
  text among them and throws a SyntaxError on the others (\<open>hello\<close>,
  \<open>Simulated message: #0\<close>, ...); \<open>ConnectionString.parse\<close> knows one service connection
  string; the token is written in the SDK's format, the signature left out; no message
  is received in the examples, and \<open>prettyjson.render\<close> is left as the identity.
\<close>

definition example_json_text :: string where
  \<open>example_json_text = ''{"messageId":"x","body":"y"}''\<close>

definition example_JSON_parse :: "string \<Rightarrow> js_error + json" where
  "example_JSON_parse text =
     (if text = example_json_text
      then Inr (JObject [(''messageId'', JString ''x''), (''body'', JString ''y'')])
      else Inl (JsError ''SyntaxError'' ''Unexpected token'' None))"

definition example_service_connection_string :: string where
  "example_service_connection_string =
     ''HostName=hub.example;SharedAccessKeyName=owner;SharedAccessKey=a2V5''"

definition example_sdk :: sdk where
  "example_sdk =
     \<lparr>ConnectionString_parse =
        (\<lambda>cs. if cs = example_service_connection_string
              then Inr \<lparr>HostName = ''hub.example'', SharedAccessKeyName = ''owner'',
                        SharedAccessKey = ''a2V5''\<rparr>
              else Inl (JsError ''ArgumentError'' ''The connection string is missing a property'' None)),
      SharedAccessSignature_create =
        (\<lambda>host keyName key expiry.
           ''SharedAccessSignature sr='' @ host @ ''&sig=&se='' @ decimal expiry @ ''&skn='' @ keyName),
      SharedAccessSignature_parse_sr = (\<lambda>sas. Inr ''hub.example''),
      DeviceConnectionString_parse_DeviceId = (\<lambda>cs. Inr (Some ''dev1'')),
      JSON_parse = example_JSON_parse,
      prettyjson_render = (\<lambda>text. text)\<rparr>"

text \<open>A host on which \<open>process.platform\<close> is none of the three that \<open>configLoc\<close> knows.\<close>

definition freebsd_without_session :: environment where
  "freebsd_without_session = linux_without_session\<lparr>platform := ''freebsd''\<rparr>"

text \<open>The exception that ended a run, when one did.\<close>

definition thrown :: "'a proc \<Rightarrow> js_error option" where
  "thrown p = (case snd p of Inl (Throw e) \<Rightarrow> Some e | _ \<Rightarrow> None)"

text \<open>
  Command lines of the examples: a device connection string and \<open>--send\<close>; a device id with
  \<open>--receive --protocol mqtt --settle reject\<close>; a device id with \<open>--send\<close>.
\<close>

definition argv_empty :: program where
  "argv_empty =
     \<lparr>program_connectionString = None, program_login = None, program_protocol = None,
      program_send = SendAbsent, program_sendInterval = None, program_sendCount = None,
      program_receive = False, program_receiveCount = None, program_settle = None,
      program_uploadFile = None, program_args = []\<rparr>"

definition argv_connection_string :: program where
  "argv_connection_string =
     argv_empty\<lparr>program_connectionString :=
                   Some ''HostName=hub.example;DeviceId=dev1;SharedAccessKey=a2V5'',
                 program_send := SendFlag\<rparr>"

definition argv_mqtt_reject :: program where
  "argv_mqtt_reject =
     argv_empty\<lparr>program_protocol := Some ''mqtt'', program_settle := Some ''reject'',
                 program_receive := True, program_args := [''dev1'']\<rparr>"


text \<open>
  The variables the script sets for a command line without \<open>--protocol\<close> and \<open>--settle\<close>,
  and two more command lines: \<open>dev1 --send --send-count n\<close> and
  \<open>dev1 --upload-file report.txt\<close>.
\<close>

definition default_settings :: "program \<Rightarrow> settings" where
  "default_settings program =
     \<lparr>settleMethod = ''complete'',
      Protocol = Amqp,
      sendInterval = or_default (program_sendInterval program) 1000,
      sendCount = or_default (program_sendCount program) MAX_SAFE_INTEGER,
      receiveCount = or_default (program_receiveCount program) MAX_SAFE_INTEGER,
      uploadFilePath = program_uploadFile program\<rparr>"


definition argv_upload :: program where
  "argv_upload = argv_empty\<lparr>program_uploadFile := Some ''report.txt'', program_args := [''dev1'']\<rparr>"



text \<open>The callbacks that report a failure of the service: of open, send, settle, upload
  and close.\<close>

fun service_failure :: "event \<Rightarrow> bool" where
  "service_failure (OpenDone (Some e)) = True"
| "service_failure (SendEventDone (Some e)) = True"
| "service_failure (SettleDone (Some e)) = True"
| "service_failure (UploadDone (Some e)) = True"
| "service_failure (CloseDone (Some e)) = True"
| "service_failure ev = False"






section \<open>Auxiliary facts\<close>

lemma truthy_simps:
  "truthy None = False" "truthy (Some s) = (s \<noteq> [])"
  by (simp_all add: truthy_def)

lemma printError_eq:
  "printError message None = ([error_line ''Error:'' message], Inl (Exit 1))"
  "printError message (Some []) = ([error_line ''Error:'' message], Inl (Exit 1))"
  "p \<noteq> [] \<Longrightarrow> printError message (Some p) = ([error_line p message], Inl (Exit 1))"
  by (simp_all add: printError_def error_line_def truthy_simps js_concat_value_def)

lemma inputError_eq:
  "inputError message = ([error_line ''Input Error:'' message], Inl (Exit 1))"
  by (simp add: inputError_def printError_eq)

lemma printSuccess_eq:
  "printSuccess message = ([success_line message], Inr ())"
  by (simp add: printSuccess_def success_line_def)

lemma and_then_simps:
  "and_then (out, Inl h) f = (out, Inl h)"
  "and_then (out, Inr x) f = (out @ fst (f x), snd (f x))"
  by (simp_all add: and_then_def split: prod.splits)

lemma and_then_return:
  "and_then (return_proc x) f = f x"
  by (simp add: and_then_def return_proc_def split: prod.splits)

section \<open>Connection strings of devices\<close>

text \<open>
  C7. The code tests the four fields for truthiness: a field is present when it holds a
  non-empty string, and absent when it is undefined, null or empty. When the two keys and
  the two thumbprints are absent the result is null; when one of them is present the
  result is a string that starts with the host name and the device id.
\<close>

theorem connection_string_null_iff_no_credentials:
  "(\<not> truthy (primaryKey (SymmetricKey (authentication d)))
     \<and> \<not> truthy (secondaryKey (SymmetricKey (authentication d)))
     \<and> \<not> truthy (primaryThumbprint (x509Thumbprint (authentication d)))
     \<and> \<not> truthy (secondaryThumbprint (x509Thumbprint (authentication d)))
     \<longrightarrow> createDeviceConnectionString d host = None)
   \<and> (truthy (primaryKey (SymmetricKey (authentication d)))
      \<or> truthy (secondaryKey (SymmetricKey (authentication d)))
      \<or> truthy (primaryThumbprint (x509Thumbprint (authentication d)))
      \<or> truthy (secondaryThumbprint (x509Thumbprint (authentication d)))
     \<longrightarrow> (\<exists>rest. createDeviceConnectionString d host =
            Some (''HostName='' @ host @ '';DeviceId='' @ deviceId d @ rest)))"
  by (simp add: createDeviceConnectionString_def Let_def)

theorem connection_string_null_iff_no_credentials_witness:
  "createDeviceConnectionString device_without_credentials ''hub.example'' = None
   \<and> truthy (primaryKey (SymmetricKey (authentication device_with_key)))
   \<and> (\<exists>rest. createDeviceConnectionString device_with_key ''hub.example'' =
         Some (''HostName=hub.example;DeviceId=dev1'' @ rest))"
  using connection_string_null_iff_no_credentials [of device_without_credentials "''hub.example''"]
        connection_string_null_iff_no_credentials [of device_with_key "''hub.example''"]
  by (simp add: device_without_credentials_def device_with_key_def truthy_simps)

text \<open>
  C10. With both keys absent and a thumbprint present, the result is the host name and the
  device id followed at once by \<open>x509=true\<close>, with no semicolon between them; with a key
  present, the key follows after \<open>;SharedAccessKey=\<close>.
\<close>

theorem x509_marker_without_separator:
  "(\<not> truthy (primaryKey (SymmetricKey (authentication d)))
     \<and> \<not> truthy (secondaryKey (SymmetricKey (authentication d)))
     \<and> (truthy (primaryThumbprint (x509Thumbprint (authentication d)))
        \<or> truthy (secondaryThumbprint (x509Thumbprint (authentication d))))
     \<longrightarrow> createDeviceConnectionString d host =
           Some (''HostName='' @ host @ '';DeviceId='' @ deviceId d @ ''x509=true''))
   \<and> (primaryKey (SymmetricKey (authentication d)) = Some k \<and> k \<noteq> []
     \<longrightarrow> createDeviceConnectionString d host =
           Some (''HostName='' @ host @ '';DeviceId='' @ deviceId d @ '';SharedAccessKey='' @ k))
   \<and> (\<not> truthy (primaryKey (SymmetricKey (authentication d)))
      \<and> secondaryKey (SymmetricKey (authentication d)) = Some k \<and> k \<noteq> []
     \<longrightarrow> createDeviceConnectionString d host =
           Some (''HostName='' @ host @ '';DeviceId='' @ deviceId d @ '';SharedAccessKey='' @ k))"
  by (auto simp add: createDeviceConnectionString_def Let_def truthy_simps js_concat_value_def)

theorem x509_marker_without_separator_witness:
  "truthy (primaryThumbprint (x509Thumbprint (authentication device_with_thumbprint)))
   \<and> createDeviceConnectionString device_with_thumbprint ''hub.example'' =
       Some ''HostName=hub.example;DeviceId=dev1x509=true''
   \<and> createDeviceConnectionString device_with_key ''hub.example'' =
       Some ''HostName=hub.example;DeviceId=dev1;SharedAccessKey=a2V5''"
  using x509_marker_without_separator [of device_with_thumbprint "''hub.example''" "''a2V5''"]
        x509_marker_without_separator [of device_with_key "''hub.example''" "''a2V5''"]
  by (simp add: device_with_thumbprint_def device_with_key_def truthy_simps)

section \<open>The session token\<close>

lemma loadSasFromUserFile_missing:
  assumes "configLoc env = ([], Inr loc)" and "files env (session_path loc) = Missing"
  shows "loadSasFromUserFile env = ([], Inr None)"
  using assms
  by (simp add: loadSasFromUserFile_def and_then_def readFileSync_def fs_error_def return_proc_def)

lemma configLoc_linux:
  "platform env = ''linux'' \<Longrightarrow>
   configLoc env = ([], Inr \<lparr>dir = js_concat_value (HOME env), filename = ''.iothub-explorer''\<rparr>)"
  by (simp add: configLoc_def return_proc_def)

lemma configLoc_cases:
  "(\<exists>loc. configLoc env = ([], Inr loc))
   \<or> configLoc env = ([error_line ''Input Error:'' '''login' not supported on this platform''], Inl (Exit 1))"
  by (simp add: configLoc_def return_proc_def inputError_eq)

lemma getSas_unsupported_platform:
  assumes "\<not> truthy connectionString"
      and "configLoc env = ([error_line ''Input Error:'' msg], Inl (Exit 1))"
  shows "getSas lib env connectionString = ([error_line ''Input Error:'' msg], Inl (Exit 1))"
  using assms by (simp add: getSas_def loadSasFromUserFile_def and_then_simps)

text \<open>
  C8, as the code has it. On a platform for which \<open>configLoc\<close> gives the place of the
  session file: without a connection string and with no file at that place, the read of
  the file swallows the error and yields undefined, and \<open>getSas\<close> prints the input error
  that asks for a login and exits with code 1: it returns no value.
\<close>

theorem getSas_without_session_is_input_error:
  assumes "\<not> truthy connectionString"
      and "configLoc env = ([], Inr loc)"
      and "files env (session_path loc) = Missing"
  shows "loadSasFromUserFile env = ([], Inr None)
       \<and> getSas lib env connectionString =
           ([error_line ''Input Error:'' login_message], Inl (Exit 1))"
  using assms(1) loadSasFromUserFile_missing [OF assms(2,3)]
  by (simp add: getSas_def and_then_simps inputError_eq truthy_simps)

theorem getSas_without_session_is_input_error_witness:
  "\<not> truthy None
   \<and> configLoc linux_without_session =
       ([], Inr \<lparr>dir = ''/home/user'', filename = ''.iothub-explorer''\<rparr>)
   \<and> files linux_without_session ''/home/user/.iothub-explorer'' = Missing
   \<and> loadSasFromUserFile linux_without_session = ([], Inr None)
   \<and> getSas example_sdk linux_without_session None =
       ([error_line ''Input Error:'' login_message], Inl (Exit 1))"
proof -
  let ?loc = "\<lparr>dir = ''/home/user'', filename = ''.iothub-explorer''\<rparr>"
  have t: "\<not> truthy None" by (simp add: truthy_simps)
  have c: "configLoc linux_without_session = ([], Inr ?loc)"
    by (simp add: configLoc_linux linux_without_session_def js_concat_value_def)
  have f: "files linux_without_session ''/home/user/.iothub-explorer'' = Missing"
    by (simp add: linux_without_session_def)
  have m: "files linux_without_session (session_path ?loc) = Missing"
    by (simp add: linux_without_session_def)
  show ?thesis
    using getSas_without_session_is_input_error [OF t c m, of example_sdk] t c f
    by blast
qed

text \<open>
  C8, as the claim has it, fails on a platform that \<open>configLoc\<close> does not know. On a
  FreeBSD host there is no connection string and no session file, and the input error of
  \<open>getSas\<close> is not the one that asks for a login: it is the one of \<open>configLoc\<close>.
\<close>

theorem getSas_unsupported_platform_counterexample:
  "getSas example_sdk freebsd_without_session None =
     ([Colored (CHR 0x0A # ''{bold}{red}Input Error:{/red}{/bold} 'login' not supported on this platform'')],
      Inl (Exit 1))"
  by (simp add: getSas_def loadSasFromUserFile_def configLoc_def inputError_def printError_def
        and_then_def truthy_def js_concat_value_def freebsd_without_session_def
        linux_without_session_def)

lemma one_hour_window:
  fixes n :: nat
  shows "3599000 < (n div 1000 + 3600) * 1000 - n \<and> (n div 1000 + 3600) * 1000 - n \<le> 3600000"
proof -
  define q where "q = n div 1000"
  define r where "r = n mod 1000"
  have n: "n = q * 1000 + r" by (simp add: q_def r_def)
  have r: "r < 1000" by (simp add: r_def)
  have "(q + 3600) * 1000 - (q * 1000 + r) = 3600000 - r"
    by (simp add: algebra_simps)
  then have "(q + 3600) * 1000 - n = 3600000 - r" using n by simp
  then show ?thesis using r unfolding q_def by linarith
qed

text \<open>
  C9. With a connection string that parses, the token is created with the expiry
  \<open>Date.now()\<close> in whole seconds plus 3600: the token \<open>getSas\<close> returns is the one the SDK
  makes for the host, the key name, the key and that expiry (the input error of an empty
  token apart). Counted in milliseconds the expiry lies more than 3599 and at most 3600
  seconds after the call.
\<close>

theorem getSas_expiry_one_hour:
  assumes "cs \<noteq> []"
      and "ConnectionString_parse lib cs = Inr cn"
  shows "\<exists>expiry. expiry = Date_now env div 1000 + 3600
           \<and> getSas lib env (Some cs) =
               (let token = SharedAccessSignature_create lib (HostName cn)
                              (SharedAccessKeyName cn) (SharedAccessKey cn) expiry
                in if token = [] then ([error_line ''Input Error:'' login_message], Inl (Exit 1))
                   else ([], Inr token))
           \<and> 3599000 < expiry * 1000 - Date_now env
           \<and> expiry * 1000 - Date_now env \<le> 3600000"
proof -
  have "getSas lib env (Some cs) =
          (let token = SharedAccessSignature_create lib (HostName cn)
                         (SharedAccessKeyName cn) (SharedAccessKey cn) (Date_now env div 1000 + 3600)
           in if token = [] then ([error_line ''Input Error:'' login_message], Inl (Exit 1))
              else ([], Inr token))"
    using assms
    by (simp add: getSas_def and_then_def return_proc_def inputError_eq truthy_simps
          js_concat_value_def Let_def)
  moreover note one_hour_window [of "Date_now env"]
  ultimately show ?thesis by blast
qed

theorem getSas_expiry_one_hour_witness:
  "example_service_connection_string \<noteq> []
   \<and> getSas example_sdk linux_without_session (Some example_service_connection_string) =
       ([], Inr ''SharedAccessSignature sr=hub.example&sig=&se=1478170800&skn=owner'')"
proof -
  have ne: "example_service_connection_string \<noteq> []"
    by (simp add: example_service_connection_string_def)
  have p: "ConnectionString_parse example_sdk example_service_connection_string =
             Inr \<lparr>HostName = ''hub.example'', SharedAccessKeyName = ''owner'',
                  SharedAccessKey = ''a2V5''\<rparr>"
    by (simp add: example_sdk_def)
  have d: "decimal 1478170800 = ''1478170800''"
    by simp
  have n: "Date_now linux_without_session div 1000 + 3600 = 1478170800"
    by (simp add: linux_without_session_def)
  show ?thesis
    using getSas_expiry_one_hour [OF ne p, of linux_without_session] ne
    by (simp add: n example_sdk_def d del: decimal.simps)
qed

section \<open>The logout command\<close>

lemma unlinkSync_cases:
  "files env p = Missing \<Longrightarrow> unlinkSync (files env) p = Inl (fs_error ''ENOENT'' p)"
  "files env p = File content \<Longrightarrow> unlinkSync (files env) p = Inr ((files env)(p := Missing))"
  "files env p = Failing code \<Longrightarrow> unlinkSync (files env) p = Inl (fs_error code p)"
  by (simp_all add: unlinkSync_def)

text \<open>
  C4, as the code has it. On a platform with a session file location: when the file is
  missing, the command prints \<open>No session information found.\<close> through \<open>printError\<close>, that
  is under the prefix \<open>Error:\<close>, and exits with code 1, without throwing; when the file
  exists, it is deleted and \<open>Session successfully terminated.\<close> is printed; a deletion
  that fails with another code than ENOENT throws that error.
\<close>

theorem logout_outcomes:
  assumes "configLoc env = ([], Inr loc)"
  shows "(files env (session_path loc) = Missing \<longrightarrow>
            logout env = ([error_line ''Error:'' ''No session information found.''], Inl (Exit 1)))
       \<and> (\<forall>content. files env (session_path loc) = File content \<longrightarrow>
            logout env = ([success_line ''Session successfully terminated.''],
                          Inr ((files env)(session_path loc := Missing))))
       \<and> (\<forall>code. files env (session_path loc) = Failing code \<and> code \<noteq> ''ENOENT'' \<longrightarrow>
            logout env = ([], Inl (Throw (fs_error code (session_path loc)))))"
proof (intro conjI allI impI)
  assume "files env (session_path loc) = Missing"
  then show "logout env = ([error_line ''Error:'' ''No session information found.''], Inl (Exit 1))"
    using assms
    by (simp add: logout_def and_then_simps unlinkSync_cases fs_error_def printError_eq)
next
  fix content
  assume "files env (session_path loc) = File content"
  then show "logout env = ([success_line ''Session successfully terminated.''],
                           Inr ((files env)(session_path loc := Missing)))"
    using assms
    by (simp add: logout_def and_then_simps unlinkSync_cases printSuccess_eq return_proc_def)
next
  fix code
  assume "files env (session_path loc) = Failing code \<and> code \<noteq> ''ENOENT''"
  then show "logout env = ([], Inl (Throw (fs_error code (session_path loc))))"
    using assms
    by (simp add: logout_def and_then_simps unlinkSync_cases fs_error_def)
qed

theorem logout_outcomes_witness:
  "logout linux_without_session =
     ([error_line ''Error:'' ''No session information found.''], Inl (Exit 1))
   \<and> logout linux_with_session =
       ([success_line ''Session successfully terminated.''],
        Inr ((files linux_with_session)(''/home/user/.iothub-explorer'' := Missing)))
   \<and> logout linux_with_unreadable_session =
       ([], Inl (Throw (fs_error ''EACCES'' ''/home/user/.iothub-explorer'')))"
proof -
  let ?loc = "\<lparr>dir = ''/home/user'', filename = ''.iothub-explorer''\<rparr>"
  have p: "session_path ?loc = ''/home/user/.iothub-explorer''"
    by (simp add: session_path_def)
  have a: "configLoc linux_without_session = ([], Inr ?loc)"
    by (simp add: configLoc_linux linux_without_session_def js_concat_value_def)
  have b: "configLoc linux_with_session = ([], Inr ?loc)"
    by (simp add: configLoc_linux linux_with_session_def linux_without_session_def
          js_concat_value_def)
  have c: "configLoc linux_with_unreadable_session = ([], Inr ?loc)"
    by (simp add: configLoc_linux linux_with_unreadable_session_def linux_without_session_def
          js_concat_value_def)
  have "logout linux_without_session =
          ([error_line ''Error:'' ''No session information found.''], Inl (Exit 1))"
    using logout_outcomes [OF a] by (simp add: p linux_without_session_def)
  moreover have "logout linux_with_session =
          ([success_line ''Session successfully terminated.''],
           Inr ((files linux_with_session)(''/home/user/.iothub-explorer'' := Missing)))"
    using logout_outcomes [OF b] by (simp add: p linux_with_session_def)
  moreover have "logout linux_with_unreadable_session =
          ([], Inl (Throw (fs_error ''EACCES'' ''/home/user/.iothub-explorer'')))"
    using logout_outcomes [OF c] by (simp add: p linux_with_unreadable_session_def)
  ultimately show ?thesis by blast
qed

text \<open>
  C4, as the claim has it, fails on a Linux host without a session file: the line printed
  is an \<open>Error:\<close> line and the exit code is 1, the code of the error path.
\<close>

theorem logout_missing_session_counterexample:
  "logout linux_without_session =
     ([Colored (CHR 0x0A # ''{bold}{red}Error:{/red}{/bold} No session information found.'')],
      Inl (Exit 1))"
  by (simp add: logout_def configLoc_def linux_without_session_def return_proc_def
        and_then_def unlinkSync_def fs_error_def printError_def truthy_def session_path_def)

section \<open>Messages\<close>

lemma createMessageFromArgument_eq:
  "createMessageFromArgument parse uuid arg ack' =
     (case parse arg of
        Inr v \<Rightarrow> Inl TypeError_messageId
      | Inl e \<Rightarrow>
          if ename e = ''SyntaxError''
          then Inr (Envelope \<lparr>data = TextBody arg, messageId = uuid,
                              ack = (if truthy ack' then ack' else None)\<rparr>)
          else Inl e)"
  by (simp add: createMessageFromArgument_def createMessage_def TypeError_messageId_def Let_def
        split: sum.splits)

text \<open>
  C1. On the text \<open>{"messageId":"x","body":"y"}\<close>, which \<open>JSON.parse\<close> parses into an
  object with a \<open>messageId\<close>, the function throws a TypeError: the parsed structure is
  not returned. On \<open>hello\<close> it returns a new message with the text as its body, the
  identifier of \<open>uuid.v4()\<close> and the ack mode given.
\<close>

theorem createMessageFromArgument_throws_on_json:
  "createMessageFromArgument example_JSON_parse ''0b0c4e7a-uuid'' example_json_text None =
     Inl (JsError ''TypeError'' ''Cannot read property 'messageId' of undefined'' None)
   \<and> createMessageFromArgument example_JSON_parse ''0b0c4e7a-uuid'' ''hello'' (Some ''full'') =
       Inr (Envelope \<lparr>data = TextBody ''hello'', messageId = ''0b0c4e7a-uuid'', ack = Some ''full''\<rparr>)"
  by (simp add: createMessageFromArgument_eq example_JSON_parse_def example_json_text_def
        TypeError_messageId_def truthy_simps)

section \<open>The synchronous part of simulate-device\<close>

lemma loadSasFromUserFile_cases:
  "(\<exists>sas. loadSasFromUserFile env = ([], Inr sas))
   \<or> (\<exists>msg. loadSasFromUserFile env = ([error_line ''Input Error:'' msg], Inl (Exit 1)))
   \<or> (\<exists>e. loadSasFromUserFile env = ([], Inl (Throw e)))"
  using configLoc_cases [of env]
  by (auto simp add: loadSasFromUserFile_def and_then_simps return_proc_def split: sum.splits)

text \<open>\<open>getSas\<close> returns a non-empty token, or exits on an input error, or throws.\<close>

lemma getSas_cases:
  "(\<exists>sas. getSas lib env cs = ([], Inr sas) \<and> sas \<noteq> [])
   \<or> (\<exists>msg. getSas lib env cs = ([error_line ''Input Error:'' msg], Inl (Exit 1)))
   \<or> (\<exists>e. getSas lib env cs = ([], Inl (Throw e)))"
proof (cases "truthy cs")
  case True
  then show ?thesis
    by (auto simp add: getSas_def and_then_simps return_proc_def inputError_eq truthy_simps
          js_concat_value_def Let_def split: sum.splits option.splits)
next
  case False
  then show ?thesis
    using loadSasFromUserFile_cases [of env]
    by (auto simp add: getSas_def and_then_simps return_proc_def inputError_eq truthy_simps
          js_concat_value_def split: option.splits)
qed

lemma check_simps:
  "check True message = ([error_line ''Input Error:'' message], Inl (Exit 1))"
  "check False message = ([], Inr ())"
  by (simp_all add: check_def inputError_eq return_proc_def)

text \<open>
  An invocation with a device connection string never gets past the validation: a token
  that \<open>getSas\<close> returns is truthy, and a connection string together with a token is
  refused.
\<close>

lemma script_refuses_connection_string:
  assumes "truthy (program_connectionString program)"
  shows "\<exists>out h. script lib env program = (out, Inl h)"
  using getSas_cases [of lib env "program_login program"] assms
  by (auto simp add: script_def and_then_simps check_simps truthy_simps)

lemma coerce_cases:
  "coerce f None = ([], Inr None)"
  "f a = ([], Inr v) \<Longrightarrow> coerce f (Some a) = ([], Inr (Some v))"
  "f a = (out, Inl h) \<Longrightarrow> coerce f (Some a) = (out, Inl h)"
  by (simp_all add: coerce_def and_then_simps return_proc_def)

lemma verifySettle_ok:
  "arg = ''complete'' \<or> arg = ''reject'' \<or> arg = ''abandon'' \<Longrightarrow> verifySettle arg = ([], Inr arg)"
  by (auto simp add: verifySettle_def return_proc_def)

lemma verifyProtocol_ok:
  "toLowerCase arg = ''amqp'' \<or> toLowerCase arg = ''amqp-ws'' \<or> toLowerCase arg = ''http''
     \<or> toLowerCase arg = ''mqtt''
   \<Longrightarrow> verifyProtocol arg = ([], Inr (toLowerCase arg))"
  by (auto simp add: verifyProtocol_def return_proc_def Let_def)

lemma program_parse_no_options:
  "program_protocol argv = None \<Longrightarrow> program_settle argv = None \<Longrightarrow>
   program_parse argv = ([], Inr argv)"
  by (simp add: program_parse_def coerce_cases and_then_simps return_proc_def)

lemma command_refuses_connection_string:
  assumes "truthy (program_connectionString argv)"
  shows "\<exists>out h. command lib env argv = (out, Inl h)"
proof (cases "program_parse argv")
  case (Pair out r)
  show ?thesis
  proof (cases r)
    case (Inl h)
    with Pair show ?thesis by (simp add: command_def and_then_simps)
  next
    case (Inr program)
    with Pair have "program_connectionString program = program_connectionString argv"
      by (auto simp add: program_parse_def and_then_def return_proc_def
            split: prod.splits sum.splits)
    with assms obtain out' h where "script lib env program = (out', Inl h)"
      using script_refuses_connection_string [of program lib env] by auto
    with Pair Inr show ?thesis by (simp add: command_def and_then_simps)
  qed
qed

text \<open>
  A session token and a device id, with an activity and without \<open>--protocol\<close> and
  \<open>--settle\<close>: the script ends with the registry lookup pending.
\<close>

lemma command_token_and_device_id:
  assumes "getSas lib env (program_login argv) = ([], Inr sas)"
      and "\<not> truthy (program_connectionString argv)"
      and "program_args argv = d # ds" and "d \<noteq> []"
      and "send_truthy (program_send argv) \<or> program_receive argv
             \<or> truthy (program_uploadFile argv)"
      and "program_protocol argv = None" and "program_settle argv = None"
  shows "command lib env argv = ([], Inr (default_settings argv, RegistryGet sas d))"
proof -
  have ne: "sas \<noteq> []"
    using assms(1) getSas_cases [of lib env "program_login argv"] by auto
  have activity: "\<not> (\<not> send_truthy (program_send argv) \<and> \<not> program_receive argv
                      \<and> \<not> truthy (program_uploadFile argv))"
    using assms(5) by blast
  have "script lib env argv = ([], Inr (default_settings argv, RegistryGet sas d))"
    using assms(2,3,4,6,7) ne activity
    by (auto simp add: script_def assms(1) and_then_simps check_simps truthy_simps first_arg_def
          js_concat_value_def select_protocol_def return_proc_def default_settings_def Let_def)
  then show ?thesis
    using assms(6,7) by (simp add: command_def program_parse_no_options and_then_simps)
qed

text \<open>
  C3. \<open>simulate-device --connection-string HostName=hub.example;DeviceId=dev1;SharedAccessKey=a2V5 --send\<close>
  supplies a device connection string and nothing else. Without a cached session,
  \<open>getSas\<close> ends the command with the input error that asks for a login; with a cached
  session, the command ends with the input error for the two sources given together. In
  neither run does the simulation start.
\<close>

theorem connection_string_alone_is_refused:
  "command lib linux_without_session argv_connection_string =
     ([error_line ''Input Error:'' login_message], Inl (Exit 1))
   \<and> command lib linux_with_session argv_connection_string =
       ([error_line ''Input Error:'' either_message], Inl (Exit 1))"
proof -
  have parse: "program_parse argv_connection_string = ([], Inr argv_connection_string)"
    by (rule program_parse_no_options) (simp_all add: argv_connection_string_def argv_empty_def)
  let ?loc = "\<lparr>dir = ''/home/user'', filename = ''.iothub-explorer''\<rparr>"
  have a: "configLoc linux_without_session = ([], Inr ?loc)"
    by (simp add: configLoc_linux linux_without_session_def js_concat_value_def)
  have b: "configLoc linux_with_session = ([], Inr ?loc)"
    by (simp add: configLoc_linux linux_with_session_def linux_without_session_def
          js_concat_value_def)
  have load0: "loadSasFromUserFile linux_without_session = ([], Inr None)"
    by (rule loadSasFromUserFile_missing [OF a]) (simp add: linux_without_session_def)
  have load1: "loadSasFromUserFile linux_with_session = ([], Inr (Some cached_token))"
    by (simp add: loadSasFromUserFile_def b and_then_simps session_path_def)
       (simp add: readFileSync_def return_proc_def linux_with_session_def)
  have sas0: "getSas lib linux_without_session None =
                ([error_line ''Input Error:'' login_message], Inl (Exit 1))"
    by (simp add: getSas_def load0 and_then_simps inputError_eq truthy_simps)
  have tok: "truthy (Some cached_token)"
    by (simp add: cached_token_def truthy_simps)
  have sas1: "getSas lib linux_with_session None = ([], Inr cached_token)"
    using tok
    by (simp add: getSas_def load1 and_then_simps return_proc_def truthy_simps js_concat_value_def)
  have login: "program_login argv_connection_string = None"
    by (simp add: argv_connection_string_def argv_empty_def)
  have cs: "truthy (program_connectionString argv_connection_string)"
    by (simp add: argv_connection_string_def argv_empty_def truthy_simps)
  have "command lib linux_without_session argv_connection_string =
          ([error_line ''Input Error:'' login_message], Inl (Exit 1))"
    by (simp add: command_def parse and_then_simps script_def login sas0)
  moreover have "command lib linux_with_session argv_connection_string =
          ([error_line ''Input Error:'' either_message], Inl (Exit 1))"
    by (simp add: command_def parse and_then_simps script_def login sas1 cs tok check_simps)
  ultimately show ?thesis by blast
qed

lemma select_protocol_mqtt:
  "sm \<noteq> ''complete'' \<Longrightarrow>
   select_protocol ''mqtt'' sm =
     ([error_line ''Input Error:''
         (''Cannot '' @ sm @ '' messages with MQTT: messages are automatically completed.'')],
      Inl (Exit 1))"
  by (simp add: select_protocol_def check_simps and_then_simps)

lemma program_parse_mqtt:
  assumes "program_protocol argv = Some p" and "toLowerCase p = ''mqtt''"
      and "program_settle argv = Some sm" and "sm = ''reject'' \<or> sm = ''abandon''"
  shows "program_parse argv =
           ([], Inr (argv\<lparr>program_protocol := Some ''mqtt'', program_settle := Some sm\<rparr>))"
proof -
  have "verifyProtocol p = ([], Inr ''mqtt'')"
    using verifyProtocol_ok [of p] assms(2) by simp
  moreover have "verifySettle sm = ([], Inr sm)"
    using verifySettle_ok [of sm] assms(4) by blast
  ultimately show ?thesis
    using assms(1,3)
    by (simp add: program_parse_def coerce_cases and_then_simps return_proc_def)
qed

lemma script_mqtt:
  assumes "program_protocol program = Some ''mqtt''"
      and "program_settle program = Some sm" and "sm = ''reject'' \<or> sm = ''abandon''"
  shows "(\<exists>msg. script lib env program = ([error_line ''Input Error:'' msg], Inl (Exit 1)))
       \<or> (\<exists>e. getSas lib env (program_login program) = ([], Inl (Throw e))
              \<and> script lib env program = ([], Inl (Throw e)))"
proof -
  have sm: "sm \<noteq> ''complete''" "sm \<noteq> []" using assms(3) by auto
  consider (tok) sas where "getSas lib env (program_login program) = ([], Inr sas)" "sas \<noteq> []"
    | (exit) msg where "getSas lib env (program_login program) =
                          ([error_line ''Input Error:'' msg], Inl (Exit 1))"
    | (throw) e where "getSas lib env (program_login program) = ([], Inl (Throw e))"
    using getSas_cases [of lib env "program_login program"] by blast
  then show ?thesis
  proof cases
    case tok
    then show ?thesis
      using assms(1,2) sm
      by (auto simp add: script_def and_then_simps check_def inputError_eq return_proc_def
            truthy_simps js_concat_value_def select_protocol_mqtt Let_def)
  next
    case exit
    then show ?thesis by (auto simp add: script_def and_then_simps)
  next
    case throw
    then show ?thesis by (simp add: script_def and_then_simps)
  qed
qed

lemma script_mqtt_reached:
  assumes "program_protocol program = Some ''mqtt''"
      and "program_settle program = Some sm" and "sm = ''reject'' \<or> sm = ''abandon''"
      and "getSas lib env (program_login program) = ([], Inr sas)"
      and "\<not> truthy (program_connectionString program)"
      and "truthy (first_arg (program_args program))"
      and "send_truthy (program_send program) \<or> program_receive program
             \<or> truthy (program_uploadFile program)"
  shows "script lib env program =
           ([error_line ''Input Error:''
               (''Cannot '' @ sm @ '' messages with MQTT: messages are automatically completed.'')],
            Inl (Exit 1))"
proof -
  have sm: "sm \<noteq> ''complete''" "sm \<noteq> []" using assms(3) by auto
  have ne: "sas \<noteq> []"
    using assms(4) getSas_cases [of lib env "program_login program"] by auto
  have c3: "\<not> (\<not> send_truthy (program_send program) \<and> \<not> program_receive program
                \<and> \<not> truthy (program_uploadFile program))"
    using assms(7) by blast
  show ?thesis
    using assms(1,2,5,6) sm ne c3
    by (auto simp add: script_def assms(4) and_then_simps check_simps truthy_simps
          js_concat_value_def select_protocol_mqtt Let_def)
qed

text \<open>
  C6, as the code has it. With the MQTT protocol and the settle policy reject or abandon
  the command never gets to a request to the service, so no connection is opened: it ends
  before, with an input error and exit code 1, unless getting the session token throws (a
  session file that cannot be read, an exception of the connection-string parser that is
  not an ArgumentError), and then that exception ends it with nothing printed. When the
  token is obtained, no device connection string is given (none or an empty one), and a
  device id and an activity are given (\<open>--send\<close>, \<open>--receive\<close> or \<open>--upload-file\<close>; an
  empty id, message or path does not count), the input error is the one of the MQTT
  validation.
\<close>

theorem mqtt_settle_refused_before_connect:
  assumes "program_protocol argv = Some p" and "toLowerCase p = ''mqtt''"
      and "program_settle argv = Some sm" and "sm = ''reject'' \<or> sm = ''abandon''"
  shows "((\<exists>msg. command lib env argv = ([error_line ''Input Error:'' msg], Inl (Exit 1)))
          \<or> (\<exists>e. getSas lib env (program_login argv) = ([], Inl (Throw e))
                 \<and> command lib env argv = ([], Inl (Throw e))))
       \<and> ((\<exists>sas. getSas lib env (program_login argv) = ([], Inr sas))
            \<and> \<not> truthy (program_connectionString argv)
            \<and> truthy (first_arg (program_args argv))
            \<and> (send_truthy (program_send argv) \<or> program_receive argv
                 \<or> truthy (program_uploadFile argv))
           \<longrightarrow> command lib env argv =
                 ([error_line ''Input Error:''
                     (''Cannot '' @ sm @ '' messages with MQTT: messages are automatically completed.'')],
                  Inl (Exit 1)))"
proof -
  let ?program = "argv\<lparr>program_protocol := Some ''mqtt'', program_settle := Some sm\<rparr>"
  have parse: "program_parse argv = ([], Inr ?program)"
    by (rule program_parse_mqtt [OF assms])
  have cmd: "command lib env argv = script lib env ?program"
    by (simp add: command_def parse and_then_simps)
  have first: "(\<exists>msg. script lib env ?program = ([error_line ''Input Error:'' msg], Inl (Exit 1)))
       \<or> (\<exists>e. getSas lib env (program_login ?program) = ([], Inl (Throw e))
              \<and> script lib env ?program = ([], Inl (Throw e)))"
    by (rule script_mqtt [of ?program sm lib env]) (simp_all add: assms(4))
  have second: "script lib env ?program =
           ([error_line ''Input Error:''
               (''Cannot '' @ sm @ '' messages with MQTT: messages are automatically completed.'')],
            Inl (Exit 1))"
    if "getSas lib env (program_login argv) = ([], Inr sas)"
       "\<not> truthy (program_connectionString argv)"
       "truthy (first_arg (program_args argv))"
       "send_truthy (program_send argv) \<or> program_receive argv \<or> truthy (program_uploadFile argv)"
    for sas
    using that by (intro script_mqtt_reached [of ?program sm lib env sas]) (simp_all add: assms(4))
  show ?thesis
    using first second unfolding cmd by auto
qed

theorem mqtt_settle_refused_before_connect_witness:
  "program_protocol argv_mqtt_reject = Some ''mqtt'' \<and> toLowerCase ''mqtt'' = ''mqtt''
   \<and> program_settle argv_mqtt_reject = Some ''reject''
   \<and> getSas example_sdk linux_with_session (program_login argv_mqtt_reject) = ([], Inr cached_token)
   \<and> command example_sdk linux_with_session argv_mqtt_reject =
       ([error_line ''Input Error:''
           ''Cannot reject messages with MQTT: messages are automatically completed.''],
        Inl (Exit 1))"
proof -
  have p: "program_protocol argv_mqtt_reject = Some ''mqtt''"
    and s: "program_settle argv_mqtt_reject = Some ''reject''"
    and rest: "program_login argv_mqtt_reject = None"
              "\<not> truthy (program_connectionString argv_mqtt_reject)"
              "truthy (first_arg (program_args argv_mqtt_reject))"
              "program_receive argv_mqtt_reject"
    by (simp_all add: argv_mqtt_reject_def argv_empty_def truthy_simps first_arg_def)
  have l: "toLowerCase ''mqtt'' = ''mqtt''"
    by (simp add: toLowerCase_def lower_char_def)
  let ?loc = "\<lparr>dir = ''/home/user'', filename = ''.iothub-explorer''\<rparr>"
  have b: "configLoc linux_with_session = ([], Inr ?loc)"
    by (simp add: configLoc_linux linux_with_session_def linux_without_session_def
          js_concat_value_def)
  have load: "loadSasFromUserFile linux_with_session = ([], Inr (Some cached_token))"
    by (simp add: loadSasFromUserFile_def b and_then_simps session_path_def)
       (simp add: readFileSync_def return_proc_def linux_with_session_def)
  have tok: "truthy (Some cached_token)"
    by (simp add: cached_token_def truthy_simps)
  have sas: "getSas example_sdk linux_with_session (program_login argv_mqtt_reject) =
               ([], Inr cached_token)"
    using tok
    by (simp add: rest getSas_def load and_then_simps return_proc_def truthy_simps
          js_concat_value_def)
  show ?thesis
    using mqtt_settle_refused_before_connect
            [OF p l s, of example_sdk linux_with_session] sas rest p s l
    by simp
qed

text \<open>
  C6, as the claim has it, fails when the session file cannot be read: the command prints
  nothing, so no input error, and ends with the exception of the read, an \<open>Error\<close> with
  the code EACCES.
\<close>

theorem mqtt_settle_unreadable_session_counterexample:
  "fst (command example_sdk linux_with_unreadable_session argv_mqtt_reject) = []
   \<and> map_option ename (thrown (command example_sdk linux_with_unreadable_session argv_mqtt_reject))
       = Some ''Error''
   \<and> map_option ecode (thrown (command example_sdk linux_with_unreadable_session argv_mqtt_reject))
       = Some (Some ''EACCES'')"
proof -
  have l: "toLowerCase ''mqtt'' = ''mqtt''"
    by (simp add: toLowerCase_def lower_char_def)
  have parse: "program_parse argv_mqtt_reject = ([], Inr argv_mqtt_reject)"
    using program_parse_mqtt [of argv_mqtt_reject "''mqtt''" "''reject''"] l
    by (simp add: argv_mqtt_reject_def argv_empty_def)
  let ?loc = "\<lparr>dir = ''/home/user'', filename = ''.iothub-explorer''\<rparr>"
  let ?e = "fs_error ''EACCES'' ''/home/user/.iothub-explorer''"
  have c: "configLoc linux_with_unreadable_session = ([], Inr ?loc)"
    by (simp add: configLoc_linux linux_with_unreadable_session_def linux_without_session_def
          js_concat_value_def)
  have code: "ecode ?e = Some ''EACCES''" and name: "ename ?e = ''Error''"
    by (simp_all add: fs_error_def)
  have "readFileSync (files linux_with_unreadable_session) ''/home/user/.iothub-explorer'' = Inl ?e"
    by (simp add: readFileSync_def linux_with_unreadable_session_def)
  then have load: "loadSasFromUserFile linux_with_unreadable_session = ([], Inl (Throw ?e))"
    by (simp add: loadSasFromUserFile_def c and_then_simps session_path_def code)
  have login: "program_login argv_mqtt_reject = None"
    by (simp add: argv_mqtt_reject_def argv_empty_def)
  have "command example_sdk linux_with_unreadable_session argv_mqtt_reject = ([], Inl (Throw ?e))"
    by (simp add: command_def parse and_then_simps script_def login getSas_def truthy_simps load)
  then show ?thesis
    by (simp add: thrown_def code name)
qed

section \<open>The simulated device\<close>

lemma serviceError_eq:
  "serviceError err =
     ([error_line ''Error:''
         (if take 6 (toString err) = ''Error:'' then drop 6 (toString err) else toString err)],
      Inl (Exit 1))"
  by (simp add: serviceError_def printError_eq Let_def)

lemma emit_simps:
  "emit (out, Inl h) s = s\<lparr>console := console s @ out, halted := Some h\<rparr>"
  "emit (out, Inr x) s = s\<lparr>console := console s @ out\<rparr>"
  by (simp_all add: emit_def)

lemma step_halted:
  "halted s \<noteq> None \<Longrightarrow> step lib vars program s ev = s"
  by (simp add: step_def enabled_def)

lemma step_failure:
  assumes "enabled ev s" and "service_failure ev"
  shows "halted (step lib vars program s ev) = Some (Exit 1)
       \<and> (\<exists>msg. console (step lib vars program s ev) = console s @ [error_line ''Error:'' msg])
       \<and> uploadRunning (step lib vars program s ev) = uploadRunning s"
proof (cases ev)
  case (OpenDone err)
  with assms show ?thesis
    by (cases err) (auto simp add: step_def on_open_def serviceError_eq emit_simps)
next
  case (SendEventDone err)
  with assms show ?thesis
    by (cases err) (auto simp add: step_def on_send_done_def serviceError_eq emit_simps)
next
  case (SettleDone err)
  with assms show ?thesis
    by (cases err) (auto simp add: step_def on_settle_done_def serviceError_eq emit_simps)
next
  case (UploadDone err)
  with assms show ?thesis
    by (cases err) (auto simp add: step_def on_upload_done_def printError_eq emit_simps)
next
  case (CloseDone err)
  with assms show ?thesis
    by (cases err) (auto simp add: step_def on_close_done_def serviceError_eq emit_simps)
qed (use assms in simp_all)

lemma step_upload_failure:
  assumes "enabled (UploadDone (Some e)) s"
  shows "step lib vars program s (UploadDone (Some e)) =
           s\<lparr>upload_pending := False,
             console := console s @
               [error_line ''Error:'' (''Cannot upload file: '' @ ename e @ '': '' @ emessage e)],
             halted := Some (Exit 1)\<rparr>"
  using assms by (simp add: step_def on_upload_done_def printError_eq emit_simps)

lemma registry_failure:
  "\<exists>msg. registry_get_callback lib sas (Inl err) = ([error_line ''Error:'' msg], Inl (Exit 1))"
  by (auto simp add: registry_get_callback_def serviceError_eq and_then_simps)

text \<open>
  What the code does at a callback that reports a failure of the service, the one of the
  upload among them: it prints an \<open>Error:\<close> line and exits with code 1, and no later
  event changes the state. A failed registry lookup does the same.
\<close>

lemma failure_callbacks_exit:
  "(enabled ev s \<and> service_failure ev \<longrightarrow>
       halted (step lib vars program s ev) = Some (Exit 1)
     \<and> (\<exists>msg. console (step lib vars program s ev) = console s @ [error_line ''Error:'' msg])
     \<and> uploadRunning (step lib vars program s ev) = uploadRunning s
     \<and> (\<forall>ev'. step lib vars program (step lib vars program s ev) ev' = step lib vars program s ev))
   \<and> (enabled (UploadDone (Some e)) s \<longrightarrow>
        step lib vars program s (UploadDone (Some e)) =
          s\<lparr>upload_pending := False,
            console := console s @
              [error_line ''Error:'' (''Cannot upload file: '' @ ename e @ '': '' @ emessage e)],
            halted := Some (Exit 1)\<rparr>)
   \<and> (\<exists>msg. registry_get_callback lib sas (Inl err) = ([error_line ''Error:'' msg], Inl (Exit 1)))"
proof -
  have first:
    "halted (step lib vars program s ev) = Some (Exit 1)
     \<and> (\<exists>msg. console (step lib vars program s ev) = console s @ [error_line ''Error:'' msg])
     \<and> uploadRunning (step lib vars program s ev) = uploadRunning s
     \<and> (\<forall>ev'. step lib vars program (step lib vars program s ev) ev' = step lib vars program s ev)"
    if a: "enabled ev s \<and> service_failure ev"
  proof -
    have f: "halted (step lib vars program s ev) = Some (Exit 1)
       \<and> (\<exists>msg. console (step lib vars program s ev) = console s @ [error_line ''Error:'' msg])
       \<and> uploadRunning (step lib vars program s ev) = uploadRunning s"
      using a step_failure [of ev s lib vars program] by blast
    then have "\<forall>ev'. step lib vars program (step lib vars program s ev) ev' =
                 step lib vars program s ev"
      by (simp add: step_halted)
    with f show ?thesis by blast
  qed
  have second: "step lib vars program s (UploadDone (Some e)) =
          s\<lparr>upload_pending := False,
            console := console s @
              [error_line ''Error:'' (''Cannot upload file: '' @ ename e @ '': '' @ emessage e)],
            halted := Some (Exit 1)\<rparr>"
    if "enabled (UploadDone (Some e)) s"
    using that by (rule step_upload_failure)
  show ?thesis
    using first second registry_failure [of lib sas err] by blast
qed

lemmas simulation_defs =
  run_def step_def enabled_def on_open_def on_send_tick_def on_send_done_def on_message_def
  on_settle_done_def on_stat_def on_upload_done_def on_task_tick_def on_close_done_def
  simulation_start_def emit_def

text \<open>
  C2. On \<open>dev1 --upload-file report.txt\<close>, when \<open>uploadToBlob\<close> calls back with an error,
  the line \<open>Cannot upload file:\<close> is printed by \<open>printError\<close>, which exits: the process
  ends with code 1, \<open>uploadRunning\<close> is still set, and the tick of the task timer that
  follows does nothing. The process does not continue, and uploading is not marked
  complete. When the upload succeeds, the same callback prints the success, clears
  \<open>uploadRunning\<close> and the process runs on.
\<close>

theorem upload_failure_exits:
  "run example_sdk (default_settings argv_upload) argv_upload (simulation_start argv_upload)
     [OpenDone None, StatDone (Inr 2048),
      UploadDone (Some (JsError ''Error'' ''socket hang up'' None)), TaskTick] =
   \<lparr>sendRunning = False, receiveRunning = False, uploadRunning = True,
    sendCounter = 0, receiveCounter = 0, open_pending = False,
    sendItv = False, onMessage = False, taskItv = True,
    sendEvent_calls = [], sendEvent_pending = 0, settle_calls = [],
    settle_pending = 0, stat_pending = False, upload_pending = False,
    close_pending = 0,
    console =
      [Colored (CHR 0x0A # ''{bold}{red}Error:{/red}{/bold} Cannot upload file: Error: socket hang up'')],
    halted = Some (Exit 1)\<rparr>
   \<and> run example_sdk (default_settings argv_upload) argv_upload (simulation_start argv_upload)
       [OpenDone None, StatDone (Inr 2048), UploadDone None] =
     \<lparr>sendRunning = False, receiveRunning = False, uploadRunning = False,
      sendCounter = 0, receiveCounter = 0, open_pending = False,
      sendItv = False, onMessage = False, taskItv = True,
      sendEvent_calls = [], sendEvent_pending = 0, settle_calls = [],
      settle_pending = 0, stat_pending = False, upload_pending = False,
      close_pending = 0,
      console = [Colored ''{green}Upload successful{/green}''],
      halted = None\<rparr>"
  by (simp add: simulation_defs argv_upload_def argv_empty_def default_settings_def truthy_def
        printError_def printSuccess_def)

subsection \<open>Sending\<close>




















end
